theory Spec2Isabelle
  imports Complex_Main "HOL-Library.Multiset" "HOL-Library.Sublist"
begin

section \<open>Strings\<close>

text \<open>
  Text is a list of characters read as ASCII. The Python string methods the recommender
  uses are written out on that range: \<open>lower\<close>, \<open>strip\<close> (no argument: whitespace at
  both ends), \<open>isdigit\<close>, \<open>int\<close> on a digit string, \<open>split\<close> on a one-character
  separator and \<open>list.index\<close>.
\<close>

definition lower_chr :: "char \<Rightarrow> char" where
  "lower_chr c =
     (let n = (of_char c :: nat) in if 65 \<le> n \<and> n \<le> 90 then char_of (n + 32) else c)"

definition lower :: "string \<Rightarrow> string" where
  "lower s = map lower_chr s"

definition isspace_chr :: "char \<Rightarrow> bool" where
  "isspace_chr c =
     (let n = (of_char c :: nat) in (9 \<le> n \<and> n \<le> 13) \<or> (28 \<le> n \<and> n \<le> 32))"

definition strip :: "string \<Rightarrow> string" where
  "strip s = rev (dropWhile isspace_chr (rev (dropWhile isspace_chr s)))"

definition isdigit_chr :: "char \<Rightarrow> bool" where
  "isdigit_chr c = (let n = (of_char c :: nat) in 48 \<le> n \<and> n \<le> 57)"

definition isdigit :: "string \<Rightarrow> bool" where
  "isdigit s = (s \<noteq> [] \<and> list_all isdigit_chr s)"

definition int_of_str :: "string \<Rightarrow> int" where
  "int_of_str s = foldl (\<lambda>acc c. 10 * acc + (int (of_char c) - 48)) 0 s"

fun split_chr :: "char \<Rightarrow> string \<Rightarrow> string list" where
  "split_chr sep [] = [[]]"
| "split_chr sep (c # cs) =
     (if c = sep then [] # split_chr sep cs
      else (case split_chr sep cs of
              [] \<Rightarrow> [[c]]
            | w # ws \<Rightarrow> (c # w) # ws))"

fun index_of :: "'a list \<Rightarrow> 'a \<Rightarrow> nat" where
  "index_of [] y = 0"
| "index_of (x # xs) y = (if x = y then 0 else Suc (index_of xs y))"

section \<open>Data model\<close>

text \<open>
  A catalog record carries the four fields the recommender reads. \<open>title\<close> and \<open>url\<close>
  are read with \<open>a["title"]\<close> and \<open>a["url"]\<close>; \<open>episodes\<close> and \<open>score\<close> are read with
  \<open>a.get\<close> and may be missing or null. A score is a finite number; comparing and
  sorting scores does no arithmetic on them, so they are rationals here.
\<close>

record anime =
  title :: string
  url :: string
  episodes :: "int option"
  score :: "rat option"

record parsed_request =
  genres :: "string list"
  max_episodes :: "int option"
  rating_pref :: "string option"

text \<open>What the language pipeline \<open>nlp\<close> returns: the noun chunks, and every token with its
  part-of-speech tag.\<close>

record doc =
  noun_chunks :: "string list"
  pos_tokens :: "(string \<times> string) list"

datatype fetch_error = HTTPError nat | RequestFailed string

datatype error = KeyError string | FetchError fetch_error

datatype call = ByGenre int nat | SearchMal string nat | Anilist string nat | TopAnime nat

text \<open>
  Everything outside the two source files is a parameter: the genre directory fetched at
  start-up, the language pipeline, the order in which a set of strings is iterated, the
  four remote fetchers and the random generator. The fetchers and the generator act on a
  world \<open>'w\<close> (network, cache files, generator state) that is passed along.
\<close>

record 'w env =
  MAL_GENRES :: "string \<rightharpoonup> int"
  nlp :: "string \<Rightarrow> doc"
  iter_rank :: "string \<Rightarrow> nat"
  fetch_by_genre :: "int \<Rightarrow> nat \<Rightarrow> 'w \<Rightarrow> (fetch_error + anime list) \<times> 'w"
  fetch_search_mal :: "string \<Rightarrow> nat \<Rightarrow> 'w \<Rightarrow> (fetch_error + anime list) \<times> 'w"
  fetch_anilist :: "string \<Rightarrow> nat \<Rightarrow> 'w \<Rightarrow> (fetch_error + anime list) \<times> 'w"
  fetch_top_anime :: "nat \<Rightarrow> 'w \<Rightarrow> (fetch_error + anime list) \<times> 'w"
  randbelow :: "nat \<Rightarrow> 'w \<Rightarrow> nat \<times> 'w"

text \<open>A run threads the world and records, in order, each fetch that was made with what
  it returned.\<close>

record 'w run =
  world :: 'w
  calls :: "(call \<times> (fetch_error + anime list)) list"

section \<open>Intent parser\<close>

text \<open>
  \<open>list(phrases.union(tokens))\<close>: a set has every member once, and listing it yields the
  members in an order the program does not control. The order is given by \<open>iter_rank\<close>;
  every order of the members arises from some rank.
\<close>

definition list_of_set :: "(string \<Rightarrow> nat) \<Rightarrow> string list \<Rightarrow> string list" where
  "list_of_set rank members = sort_key rank (remdups members)"

definition extract_keywords :: "'w env \<Rightarrow> string \<Rightarrow> string list" where
  "extract_keywords env text =
     (let d = nlp env (lower text);
          phrases = noun_chunks d;
          tokens = map fst (filter (\<lambda>(tok, pos). pos = ''NOUN'' \<or> pos = ''ADJ'') (pos_tokens d))
      in list_of_set (iter_rank env) (phrases @ tokens))"

definition parse_user_request :: "'w env \<Rightarrow> string \<Rightarrow> parsed_request" where
  "parse_user_request env text =
     (let tokens = extract_keywords env text;
          gs = filter (\<lambda>tok. tok \<in> dom (MAL_GENRES env)) tokens;
          max_eps =
            (if ''under'' \<in> set tokens then
               (let idx = index_of tokens ''under'' in
                if idx + 1 < length tokens \<and> isdigit (tokens ! (idx + 1))
                then Some (int_of_str (tokens ! (idx + 1))) else None)
             else None);
          pref = (if ''hidden'' \<in> set tokens \<and> ''gem'' \<in> set tokens
                  then Some ''hidden gem'' else None)
      in \<lparr>genres = gs, max_episodes = max_eps, rating_pref = pref\<rparr>)"

section \<open>Fetching candidates\<close>

text \<open>A fetch is recorded in the run and its failure becomes the failure of the caller.\<close>

definition logged ::
  "call \<Rightarrow> ('w \<Rightarrow> (fetch_error + anime list) \<times> 'w) \<Rightarrow> 'w run \<Rightarrow> (error + anime list) \<times> 'w run" where
  "logged c fetch st =
     (case fetch (world st) of
        (r, w') \<Rightarrow>
          ((case r of Inl e \<Rightarrow> Inl (FetchError e) | Inr data \<Rightarrow> Inr data),
           st\<lparr>world := w', calls := calls st @ [(c, r)]\<rparr>))"

text \<open>
  The loop \<open>for g in parsed["genres"]: gid = MAL_GENRES[g]; candidates += fetch_by_genre(gid, pages=2)\<close>.
  A name missing from the directory raises \<open>KeyError\<close>.
\<close>

fun fetch_genres ::
  "'w env \<Rightarrow> string list \<Rightarrow> anime list \<Rightarrow> 'w run \<Rightarrow> (error + anime list) \<times> 'w run" where
  "fetch_genres env [] candidates st = (Inr candidates, st)"
| "fetch_genres env (g # gs) candidates st =
     (case MAL_GENRES env g of
        None \<Rightarrow> (Inl (KeyError g), st)
      | Some gid \<Rightarrow>
          (case logged (ByGenre gid 2) (fetch_by_genre env gid 2) st of
             (Inl e, st') \<Rightarrow> (Inl e, st')
           | (Inr data, st') \<Rightarrow> fetch_genres env gs (candidates @ data) st'))"

text \<open>The four conditionals at the head of \<open>recommend_anime\<close>, up to the first deduplication.\<close>

definition fetch_candidates ::
  "'w env \<Rightarrow> parsed_request \<Rightarrow> string \<Rightarrow> 'w run \<Rightarrow> (error + anime list) \<times> 'w run" where
  "fetch_candidates env parsed query st =
     (case (if genres parsed \<noteq> [] then fetch_genres env (genres parsed) [] st
            else if strip query \<noteq> [] then logged (SearchMal query 1) (fetch_search_mal env query 1) st
            else (Inr [], st)) of
        (Inl e, st1) \<Rightarrow> (Inl e, st1)
      | (Inr c1, st1) \<Rightarrow>
          (case (if c1 = [] \<and> strip query \<noteq> []
                 then logged (Anilist query 10) (fetch_anilist env query 10) st1
                 else (Inr c1, st1)) of
             (Inl e, st2) \<Rightarrow> (Inl e, st2)
           | (Inr c2, st2) \<Rightarrow>
               (if c2 = [] then logged (TopAnime 2) (fetch_top_anime env 2) st2
                else (Inr c2, st2))))"

section \<open>Deduplication and filters\<close>

fun dedup_url_loop :: "anime list \<Rightarrow> string set \<Rightarrow> anime list \<Rightarrow> anime list" where
  "dedup_url_loop [] seen unique = unique"
| "dedup_url_loop (a # as) seen unique =
     (if url a \<notin> seen then dedup_url_loop as (insert (url a) seen) (unique @ [a])
      else dedup_url_loop as seen unique)"

definition dedup_url :: "anime list \<Rightarrow> anime list" where
  "dedup_url candidates = dedup_url_loop candidates {} []"

text \<open>\<open>a["title"].split(":")[0].split("-")[0].strip()\<close>; the loop compares its lowercase.\<close>

definition base_title :: "string \<Rightarrow> string" where
  "base_title t = strip (hd (split_chr (CHR ''-'') (hd (split_chr (CHR '':'') t))))"

fun dedup_base_loop :: "anime list \<Rightarrow> string set \<Rightarrow> anime list \<Rightarrow> anime list" where
  "dedup_base_loop [] base_seen unique_base = unique_base"
| "dedup_base_loop (a # as) base_seen unique_base =
     (let base = base_title (title a) in
      if lower base \<notin> base_seen
      then dedup_base_loop as (insert (lower base) base_seen) (unique_base @ [a])
      else dedup_base_loop as base_seen unique_base)"

definition dedup_base :: "anime list \<Rightarrow> anime list" where
  "dedup_base candidates = dedup_base_loop candidates {} []"

text \<open>
  \<open>a.get("episodes") and a["episodes"] <= n\<close>: a missing, null or zero count is falsy.
  \<open>a.get("score") and a["score"] < 7\<close> likewise.
\<close>

definition episodes_ok :: "int \<Rightarrow> anime \<Rightarrow> bool" where
  "episodes_ok n a = (case episodes a of None \<Rightarrow> False | Some e \<Rightarrow> e \<noteq> 0 \<and> e \<le> n)"

definition episode_filter :: "int option \<Rightarrow> anime list \<Rightarrow> anime list" where
  "episode_filter mx candidates =
     (case mx of None \<Rightarrow> candidates | Some n \<Rightarrow> filter (episodes_ok n) candidates)"

definition hidden_gem_ok :: "anime \<Rightarrow> bool" where
  "hidden_gem_ok a = (case score a of None \<Rightarrow> False | Some s \<Rightarrow> s \<noteq> 0 \<and> s < 7)"

definition hidden_gem_filter :: "string option \<Rightarrow> anime list \<Rightarrow> anime list" where
  "hidden_gem_filter pref candidates =
     (if pref = Some ''hidden gem'' then filter hidden_gem_ok candidates else candidates)"

section \<open>Shuffle, sort, truncate\<close>

text \<open>
  \<open>random.shuffle\<close>: for \<open>i\<close> from the last index down to 1, draw \<open>j = randbelow(i + 1)\<close>
  and exchange the entries at \<open>i\<close> and \<open>j\<close> (\<open>x[i], x[j] = x[j], x[i]\<close>). The draw is reduced below \<open>i + 1\<close>, the range
  the generator promises.
\<close>

definition swap :: "'a list \<Rightarrow> nat \<Rightarrow> nat \<Rightarrow> 'a list" where
  "swap xs i j = xs[i := xs ! j, j := xs ! i]"

fun shuffle_from :: "(nat \<Rightarrow> 'w \<Rightarrow> nat \<times> 'w) \<Rightarrow> nat \<Rightarrow> 'a list \<Rightarrow> 'w \<Rightarrow> 'a list \<times> 'w" where
  "shuffle_from rb 0 xs w = (xs, w)"
| "shuffle_from rb (Suc i) xs w =
     shuffle_from rb i
       (swap xs (Suc i) (fst (rb (Suc (Suc i)) w) mod Suc (Suc i)))
       (snd (rb (Suc (Suc i)) w))"

definition shuffle :: "(nat \<Rightarrow> 'w \<Rightarrow> nat \<times> 'w) \<Rightarrow> 'a list \<Rightarrow> 'w \<Rightarrow> 'a list \<times> 'w" where
  "shuffle rb xs w = shuffle_from rb (length xs - 1) xs w"

text \<open>The sort key \<open>a.get("score") or 0\<close>.\<close>

definition score_key :: "anime \<Rightarrow> rat" where
  "score_key a = (case score a of None \<Rightarrow> 0 | Some s \<Rightarrow> s)"

text \<open>
  \<open>sorted(xs, key=k, reverse=True)\<close>: the list is reversed, sorted stably in ascending
  order of the key, and reversed again, so that records with equal keys keep their order.
\<close>

definition sorted_reverse :: "('a \<Rightarrow> rat) \<Rightarrow> 'a list \<Rightarrow> 'a list" where
  "sorted_reverse k xs = rev (sort_key k (rev xs))"

definition rank :: "'w env \<Rightarrow> anime list \<Rightarrow> 'w \<Rightarrow> anime list \<times> 'w" where
  "rank env candidates w =
     (case shuffle (randbelow env) candidates w of
        (shuffled, w') \<Rightarrow> (take 10 (sorted_reverse score_key shuffled), w'))"

section \<open>Recommender\<close>

text \<open>
  \<open>recommend_records\<close> is \<open>recommend_anime\<close> up to its last statement: the records that were
  selected. \<open>recommend_anime\<close> returns the title and the url of each of them.
\<close>

definition pipeline :: "parsed_request \<Rightarrow> anime list \<Rightarrow> anime list" where
  "pipeline parsed candidates =
     hidden_gem_filter (rating_pref parsed)
       (episode_filter (max_episodes parsed) (dedup_base (dedup_url candidates)))"

definition recommend_records :: "'w env \<Rightarrow> string \<Rightarrow> 'w run \<Rightarrow> (error + anime list) \<times> 'w run" where
  "recommend_records env query st =
     (let parsed = parse_user_request env query in
      case fetch_candidates env parsed query st of
        (Inl e, st') \<Rightarrow> (Inl e, st')
      | (Inr candidates, st') \<Rightarrow>
          (case rank env (pipeline parsed candidates) (world st') of
             (chosen, w') \<Rightarrow> (Inr chosen, st'\<lparr>world := w'\<rparr>)))"

definition recommend_anime ::
  "'w env \<Rightarrow> string \<Rightarrow> 'w run \<Rightarrow> (error + (string \<times> string) list) \<times> 'w run" where
  "recommend_anime env query st =
     (case recommend_records env query st of
        (Inl e, st') \<Rightarrow> (Inl e, st')
      | (Inr chosen, st') \<Rightarrow> (Inr (map (\<lambda>a. (title a, url a)) chosen), st'))"



section \<open>Cache store\<close>

text \<open>
  The file system holds regular files with their text and a set of directories. The JSON
  codec of the standard library is a parameter: \<open>json_dump\<close> gives the text written for
  a mapping, \<open>json_load\<close> the mapping read from a text, or nothing when the text does not
  parse.
\<close>

record filesystem =
  files :: "string \<rightharpoonup> string"
  dirs :: "string set"

datatype io_error =
  FileExistsError | FileNotFoundError | NotADirectoryError | IsADirectoryError | JSONDecodeError

record 'v json_codec =
  json_dump :: "(string \<rightharpoonup> 'v) \<Rightarrow> string"
  json_load :: "string \<Rightarrow> (string \<rightharpoonup> 'v) option"

definition CACHE_DIR :: string where
  "CACHE_DIR = ''data''"

definition CACHE_PATH :: string where
  "CACHE_PATH = CACHE_DIR @ ''/'' @ ''genre_cache.json''"

definition ANILIST_CACHE_PATH :: string where
  "ANILIST_CACHE_PATH = CACHE_DIR @ ''/'' @ ''anilist_cache.json''"

definition path_exists :: "filesystem \<Rightarrow> string \<Rightarrow> bool" where
  "path_exists fs path = (files fs path \<noteq> None \<or> path \<in> dirs fs)"

text \<open>\<open>os.path.dirname\<close>: the text up to the last slash, without trailing slashes unless
  it consists of slashes only.\<close>

definition dirname :: "string \<Rightarrow> string" where
  "dirname path =
     (let head = rev (dropWhile (\<lambda>c. c \<noteq> CHR ''/'') (rev path)) in
      if head \<noteq> [] \<and> \<not> list_all (\<lambda>c. c = CHR ''/'') head
      then rev (dropWhile (\<lambda>c. c = CHR ''/'') (rev head)) else head)"

text \<open>\<open>os.makedirs(CACHE_DIR, exist_ok=True)\<close>, for a directory name of one component.\<close>

definition makedirs_exist_ok :: "filesystem \<Rightarrow> string \<Rightarrow> io_error + filesystem" where
  "makedirs_exist_ok fs d =
     (if d \<in> dirs fs then Inr fs
      else if files fs d \<noteq> None then Inl FileExistsError
      else Inr (fs\<lparr>dirs := insert d (dirs fs)\<rparr>))"

text \<open>\<open>open(path)\<close> read to its end, and \<open>open(path, "w")\<close> with the text written to it. A file
  is created in the current directory (empty \<open>dirname\<close>) or in an existing directory.\<close>

definition read_file :: "filesystem \<Rightarrow> string \<Rightarrow> io_error + string" where
  "read_file fs path =
     (if path \<in> dirs fs then Inl IsADirectoryError
      else (case files fs path of None \<Rightarrow> Inl FileNotFoundError | Some text \<Rightarrow> Inr text))"

definition write_file :: "filesystem \<Rightarrow> string \<Rightarrow> string \<Rightarrow> io_error + filesystem" where
  "write_file fs path text =
     (if path \<in> dirs fs then Inl IsADirectoryError
      else if dirname path \<noteq> [] \<and> files fs (dirname path) \<noteq> None then Inl NotADirectoryError
      else if dirname path \<noteq> [] \<and> dirname path \<notin> dirs fs then Inl FileNotFoundError
      else Inr (fs\<lparr>files := (files fs)(path \<mapsto> text)\<rparr>))"

definition load_cache ::
  "'v json_codec \<Rightarrow> filesystem \<Rightarrow> string \<Rightarrow> io_error + (string \<rightharpoonup> 'v)" where
  "load_cache codec fs path =
     (if path_exists fs path then
        (case read_file fs path of
           Inl e \<Rightarrow> Inl e
         | Inr text \<Rightarrow>
             (case json_load codec text of None \<Rightarrow> Inl JSONDecodeError | Some cache \<Rightarrow> Inr cache))
      else Inr Map.empty)"

definition save_cache ::
  "'v json_codec \<Rightarrow> filesystem \<Rightarrow> string \<Rightarrow> (string \<rightharpoonup> 'v) \<Rightarrow> io_error + filesystem" where
  "save_cache codec fs path cache =
     (case makedirs_exist_ok fs CACHE_DIR of
        Inl e \<Rightarrow> Inl e
      | Inr fs' \<Rightarrow> write_file fs' path (json_dump codec cache))"

section \<open>Specification-side notions\<close>

text \<open>
  \<open>unseen key seen xs\<close> keeps each element of \<open>xs\<close> whose key is neither in \<open>seen\<close> nor
  the key of an earlier element; both deduplication loops are instances of it.
  \<open>normalized_base_title\<close> is the base title in the words of the specification: the text
  before the first colon or hyphen, lowercased and trimmed.
  \<open>fallback_trace env query trace cands\<close> is the fallback order in the words of the
  specification, read off the fetches of a run that succeeded: the by-genre fetches of the
  parsed genres in order (2 pages each, results concatenated), else the free-text search
  (1 page) for a query that is not blank; the secondary catalog (10 results) when there is
  still no candidate and the query is not blank; the top listing (2 pages) when there is
  still no candidate.
\<close>

fun unseen :: "('a \<Rightarrow> 'k) \<Rightarrow> 'k set \<Rightarrow> 'a list \<Rightarrow> 'a list" where
  "unseen key seen [] = []"
| "unseen key seen (x # xs) =
     (if key x \<in> seen then unseen key seen xs else x # unseen key (insert (key x) seen) xs)"

definition normalized_base_title :: "string \<Rightarrow> string" where
  "normalized_base_title t =
     strip (lower (takeWhile (\<lambda>c. c \<noteq> CHR '':'' \<and> c \<noteq> CHR ''-'') t))"


section \<open>Example environments\<close>

text \<open>
  A small catalog on which the definitions are run: two genres, a language pipeline that
  knows two queries, fetchers that answer from fixed lists, and a generator that counts.
  For the cache store: a codec that knows two documents (the empty object, and the object
  binding \<open>genre_22_p2\<close> to the empty list) and rejects every other text, an empty file
  system, and one whose genre cache file holds a lone brace.
\<close>

definition demo_romance :: "anime list" where
  "demo_romance =
     [\<lparr>title = ''Clannad'', url = ''mal/2167'',
        episodes = Some 23, score = Some (80 / 10)\<rparr>,
      \<lparr>title = ''Tsuki ga Kirei'', url = ''mal/34822'',
        episodes = Some 12, score = Some (81 / 10)\<rparr>,
      \<lparr>title = ''Clannad: After Story'', url = ''mal/4181'',
        episodes = Some 24, score = Some (89 / 10)\<rparr>,
      \<lparr>title = ''Horimiya'', url = ''mal/42897'',
        episodes = Some 13, score = Some (82 / 10)\<rparr>,
      \<lparr>title = ''Tsuki ga Kirei (TV)'', url = ''mal/34822'',
        episodes = Some 12, score = Some (81 / 10)\<rparr>,
      \<lparr>title = ''Ao Haru Ride'', url = ''mal/21995'',
        episodes = None, score = Some (76 / 10)\<rparr>,
      \<lparr>title = ''Just Because!'', url = ''mal/35639'',
        episodes = Some 12, score = None\<rparr>,
      \<lparr>title = ''HORIMIYA - Piece'', url = ''mal/54856'',
        episodes = Some 13, score = Some (82 / 10)\<rparr>,
      \<lparr>title = ''Orange'', url = ''mal/32729'',
        episodes = Some 13, score = Some (76 / 10)\<rparr>]"

definition demo_action :: "anime list" where
  "demo_action =
     [\<lparr>title = ''Bleach'', url = ''mal/269'',
        episodes = Some 366, score = Some (79 / 10)\<rparr>,
      \<lparr>title = ''Gibiate'', url = ''mal/40746'',
        episodes = Some 12, score = Some (39 / 10)\<rparr>,
      \<lparr>title = ''Upcoming Project'', url = ''mal/60000'',
        episodes = None, score = None\<rparr>,
      \<lparr>title = ''Hand Shakers'', url = ''mal/33003'',
        episodes = Some 12, score = Some (53 / 10)\<rparr>]"

definition demo_top :: "anime list" where
  "demo_top =
     [\<lparr>title = ''Sousou no Frieren'', url = ''mal/52991'',
        episodes = Some 13, score = Some (93 / 10)\<rparr>,
      \<lparr>title = ''Fullmetal Alchemist: Brotherhood'', url = ''mal/5114'',
        episodes = Some 16, score = Some (91 / 10)\<rparr>,
      \<lparr>title = ''Steins;Gate'', url = ''mal/9253'',
        episodes = Some 18, score = Some (90 / 10)\<rparr>]"

definition long_top :: "anime list" where
  "long_top =
     demo_top @
     [\<lparr>title = ''Gintama'', url = ''mal/28977'',
        episodes = Some 16, score = Some (90 / 10)\<rparr>,
      \<lparr>title = ''Shingeki no Kyojin'', url = ''mal/16498'',
        episodes = Some 18, score = None\<rparr>,
      \<lparr>title = ''Hunter x Hunter'', url = ''mal/11061'',
        episodes = Some 13, score = Some (90 / 10)\<rparr>,
      \<lparr>title = ''Bleach'', url = ''mal/41467'',
        episodes = Some 18, score = Some (89 / 10)\<rparr>,
      \<lparr>title = ''Kaguya-sama'', url = ''mal/43608'',
        episodes = Some 17, score = Some (89 / 10)\<rparr>,
      \<lparr>title = ''Code Geass'', url = ''mal/2904'',
        episodes = Some 18, score = Some (88 / 10)\<rparr>,
      \<lparr>title = ''Monster'', url = ''mal/19'',
        episodes = Some 17, score = Some (88 / 10)\<rparr>,
      \<lparr>title = ''Vinland Saga'', url = ''mal/49387'',
        episodes = Some 14, score = Some (88 / 10)\<rparr>,
      \<lparr>title = ''Mob Psycho 100'', url = ''mal/37510'',
        episodes = Some 16, score = Some (87 / 10)\<rparr>]"

definition demo_nlp :: "string \<Rightarrow> doc" where
  "demo_nlp text =
     (if text = ''romance under 20'' then
        \<lparr>noun_chunks = [''romance''],
         pos_tokens = [(''romance'', ''NOUN''), (''under'', ''ADJ''), (''20'', ''NOUN'')]\<rparr>
      else if text = ''action hidden gem'' then
        \<lparr>noun_chunks = [''action hidden gem''],
         pos_tokens = [(''action'', ''NOUN''), (''hidden'', ''ADJ''), (''gem'', ''NOUN'')]\<rparr>
      else \<lparr>noun_chunks = [], pos_tokens = []\<rparr>)"

definition demo_rank :: "string \<Rightarrow> nat" where
  "demo_rank tok =
     (if tok = ''romance'' then 0 else if tok = ''under'' then 1 else if tok = ''20'' then 2
      else 3)"

definition demo_env :: "nat env" where
  "demo_env =
     \<lparr>MAL_GENRES = [''romance'' \<mapsto> 22, ''action'' \<mapsto> 1],
      nlp = demo_nlp,
      iter_rank = demo_rank,
      fetch_by_genre = (\<lambda>gid pages w.
         (if gid = 22 then Inr demo_romance else if gid = 1 then Inr demo_action else Inr [], w)),
      fetch_search_mal = (\<lambda>query pages w. (Inr [], w)),
      fetch_anilist = (\<lambda>query per_page w. (Inr [], w)),
      fetch_top_anime = (\<lambda>pages w. (Inr demo_top, w)),
      randbelow = (\<lambda>n w. (w, Suc w))\<rparr>"

definition start :: "nat run" where
  "start = \<lparr>world = 0, calls = []\<rparr>"

definition long_env :: "nat env" where
  "long_env = demo_env\<lparr>fetch_top_anime := (\<lambda>pages w. (Inr long_top, w))\<rparr>"

definition nameless_env :: "nat env" where
  "nameless_env =
     demo_env\<lparr>fetch_top_anime :=
       (\<lambda>pages w. (Inr [\<lparr>title = [], url = [], episodes = None, score = None\<rparr>], w))\<rparr>"

definition demo_doc :: string where
  "demo_doc = ''{'' @ [CHR 0x22] @ ''genre_22_p2'' @ [CHR 0x22] @ '': []}''"

definition demo_codec :: "anime list json_codec" where
  "demo_codec =
     \<lparr>json_dump = (\<lambda>cache. if cache ''genre_22_p2'' = None then ''{}'' else demo_doc),
      json_load = (\<lambda>text. if text = ''{}'' then Some Map.empty
                           else if text = demo_doc then Some [''genre_22_p2'' \<mapsto> []]
                           else None)\<rparr>"

definition empty_fs :: filesystem where
  "empty_fs = \<lparr>files = Map.empty, dirs = {}\<rparr>"

definition broken_fs :: filesystem where
  "broken_fs = \<lparr>files = [CACHE_PATH \<mapsto> ''{''], dirs = {CACHE_DIR}\<rparr>"

section \<open>The directory lookup\<close>

lemma genres_in_directory:
  "set (genres (parse_user_request env query)) \<subseteq> dom (MAL_GENRES env)"
  by (auto simp: parse_user_request_def Let_def)

lemma logged_not_KeyError: "fst (logged c fetch st) \<noteq> Inl (KeyError g)"
  by (auto simp: logged_def split: prod.splits sum.splits)

lemma fetch_genres_not_KeyError:
  "set gs \<subseteq> dom (MAL_GENRES env) \<Longrightarrow> fst (fetch_genres env gs acc st) \<noteq> Inl (KeyError g)"
proof (induction gs arbitrary: acc st)
  case Nil
  then show ?case by simp
next
  case (Cons a gs)
  from Cons.prems obtain gid where gid: "MAL_GENRES env a = Some gid" by auto
  from Cons.prems have sub: "set gs \<subseteq> dom (MAL_GENRES env)" by simp
  show ?case
  proof (cases "logged (ByGenre gid 2) (fetch_by_genre env gid 2) st")
    case (Pair r st')
    show ?thesis
    proof (cases r)
      case (Inl e)
      with Pair logged_not_KeyError[of "ByGenre gid 2" "fetch_by_genre env gid 2" st g]
      show ?thesis using gid by simp
    next
      case (Inr data)
      with Pair gid Cons.IH[OF sub] show ?thesis by simp
    qed
  qed
qed

lemma fetch_candidates_not_KeyError:
  assumes "set (genres parsed) \<subseteq> dom (MAL_GENRES env)"
  shows "fst (fetch_candidates env parsed query st) \<noteq> Inl (KeyError g)"
proof -
  define first where "first =
    (if genres parsed \<noteq> [] then fetch_genres env (genres parsed) [] st
     else if strip query \<noteq> [] then logged (SearchMal query 1) (fetch_search_mal env query 1) st
     else (Inr [], st))"
  have f1: "fst first \<noteq> Inl (KeyError g)"
    unfolding first_def
    using fetch_genres_not_KeyError[OF assms, of "[]" st g]
          logged_not_KeyError[of "SearchMal query 1" "fetch_search_mal env query 1" st g]
    by simp
  obtain r1 st1 where r1: "first = (r1, st1)" by (cases first)
  show ?thesis
  proof (cases r1)
    case (Inl e)
    with f1 r1 show ?thesis
      unfolding fetch_candidates_def first_def[symmetric] by simp
  next
    case c1: (Inr c1)
    define second where "second =
      (if c1 = [] \<and> strip query \<noteq> []
       then logged (Anilist query 10) (fetch_anilist env query 10) st1 else (Inr c1, st1))"
    have f2: "fst second \<noteq> Inl (KeyError g)"
      unfolding second_def
      using logged_not_KeyError[of "Anilist query 10" "fetch_anilist env query 10" st1 g]
      by simp
    obtain r2 st2 where r2: "second = (r2, st2)" by (cases second)
    show ?thesis
    proof (cases r2)
      case (Inl e)
      with f2 r1 c1 r2 show ?thesis
        unfolding fetch_candidates_def first_def[symmetric] by (simp add: second_def[symmetric])
    next
      case c2: (Inr c2)
      have "fst (fetch_candidates env parsed query st) =
            fst (if c2 = [] then logged (TopAnime 2) (fetch_top_anime env 2) st2 else (Inr c2, st2))"
        using r1 c1 r2 c2
        unfolding fetch_candidates_def first_def[symmetric] by (simp add: second_def[symmetric])
      then show ?thesis
        using logged_not_KeyError[of "TopAnime 2" "fetch_top_anime env 2" st2 g] by simp
    qed
  qed
qed

lemma recommend_records_not_KeyError:
  "fst (recommend_records env query st) \<noteq> Inl (KeyError g)"
proof -
  obtain r st' where r: "fetch_candidates env (parse_user_request env query) query st = (r, st')"
    by (cases "fetch_candidates env (parse_user_request env query) query st")
  have "r \<noteq> Inl (KeyError g)"
    using fetch_candidates_not_KeyError[OF genres_in_directory, of env query query st g] r by simp
  then show ?thesis
    unfolding recommend_records_def Let_def r
    by (cases r) (simp_all split: prod.splits)
qed

text \<open>
  Claim C10. The genres that \<open>parse_user_request\<close> produces are keys of the genre directory,
  so the lookup \<open>MAL_GENRES[g]\<close> that \<open>recommend_anime\<close> makes for each of them finds its key:
  no run of \<open>recommend_anime\<close> ends in the \<open>KeyError\<close> of a missing genre.
\<close>

theorem directory_lookup_never_fails:
  "set (genres (parse_user_request env query)) \<subseteq> dom (MAL_GENRES env) \<and>
   (\<forall>g. fst (recommend_anime env query st) \<noteq> Inl (KeyError g))"
proof (intro conjI allI)
  show "set (genres (parse_user_request env query)) \<subseteq> dom (MAL_GENRES env)"
    by (rule genres_in_directory)
next
  fix g
  show "fst (recommend_anime env query st) \<noteq> Inl (KeyError g)"
    using recommend_records_not_KeyError[of env query st g]
    by (auto simp: recommend_anime_def split: prod.splits sum.splits)
qed

section \<open>Strings and deduplication\<close>

lemma split_chr_nonempty: "split_chr sep s \<noteq> []"
  by (induction s) (auto split: list.splits)

lemma hd_split_chr: "hd (split_chr sep s) = takeWhile (\<lambda>c. c \<noteq> sep) s"
  by (induction s) (auto simp: split_chr_nonempty split: list.splits)

lemma takeWhile_twice:
  "takeWhile P (takeWhile Q xs) = takeWhile (\<lambda>x. Q x \<and> P x) xs"
  by (induction xs) auto

lemma isspace_lower_chr: "isspace_chr (lower_chr c) = isspace_chr c"
proof -
  have "of_char (char_of (of_char c + 32 :: nat)) = (of_char c + 32 :: nat)"
    if "(of_char c :: nat) \<le> 90"
    using that by simp
  then show ?thesis
    by (auto simp: isspace_chr_def lower_chr_def Let_def)
qed

lemma lower_dropWhile_space:
  "lower (dropWhile isspace_chr s) = dropWhile isspace_chr (lower s)"
  by (simp add: lower_def dropWhile_map comp_def isspace_lower_chr)

lemma lower_strip: "lower (strip s) = strip (lower s)"
proof -
  have rev_lower: "\<And>xs. lower (rev xs) = rev (lower xs)"
    by (simp add: lower_def rev_map)
  show ?thesis
    unfolding strip_def
    by (simp add: rev_lower lower_dropWhile_space)
qed

lemma base_title_normalized: "lower (base_title t) = normalized_base_title t"
  by (simp add: base_title_def normalized_base_title_def hd_split_chr takeWhile_twice lower_strip)

lemma dedup_url_loop_unseen: "dedup_url_loop xs seen acc = acc @ unseen url seen xs"
  by (induction xs arbitrary: seen acc) auto

lemma dedup_base_loop_unseen:
  "dedup_base_loop xs seen acc = acc @ unseen (\<lambda>a. lower (base_title (title a))) seen xs"
  by (induction xs arbitrary: seen acc) (auto simp: Let_def)

lemma dedup_url_unseen: "dedup_url xs = unseen url {} xs"
  by (simp add: dedup_url_def dedup_url_loop_unseen)

lemma dedup_base_unseen: "dedup_base xs = unseen (\<lambda>a. normalized_base_title (title a)) {} xs"
  by (simp add: dedup_base_def dedup_base_loop_unseen base_title_normalized)

lemma subseq_unseen: "subseq (unseen key seen xs) xs"
  by (induction xs arbitrary: seen) auto






section \<open>Shuffle, sort and the pipeline\<close>

lemma swap_mset: "i < length xs \<Longrightarrow> j < length xs \<Longrightarrow> mset (swap xs i j) = mset xs"
  unfolding swap_def by (rule mset_swap)

lemma shuffle_from_mset:
  "i < length xs \<Longrightarrow> mset (fst (shuffle_from rb i xs w)) = mset xs"
proof (induction i arbitrary: xs w)
  case 0
  then show ?case by simp
next
  case (Suc i)
  define j where "j = fst (rb (Suc (Suc i)) w) mod Suc (Suc i)"
  have "j < Suc (Suc i)" unfolding j_def by (rule mod_less_divisor) simp
  with Suc.prems have j: "j < length xs" by simp
  define ys where "ys = swap xs (Suc i) j"
  have "mset ys = mset xs" unfolding ys_def using swap_mset[OF Suc.prems j] .
  moreover have "i < length ys" using Suc.prems by (simp add: ys_def swap_def)
  ultimately have "mset (fst (shuffle_from rb i ys (snd (rb (Suc (Suc i)) w)))) = mset xs"
    using Suc.IH[of ys] by simp
  then show ?case by (simp add: j_def ys_def)
qed

lemma shuffle_mset: "mset (fst (shuffle rb xs w)) = mset xs"
proof (cases xs)
  case Nil
  then show ?thesis by (simp add: shuffle_def)
next
  case (Cons a list)
  then have "length xs - 1 < length xs" by simp
  then show ?thesis unfolding shuffle_def by (rule shuffle_from_mset)
qed

lemma sorted_reverse_mset: "mset (sorted_reverse k xs) = mset xs"
  by (simp add: sorted_reverse_def)



lemma rank_shuffled:
  "rank env cs w =
     (take 10 (sorted_reverse score_key (fst (shuffle (randbelow env) cs w))),
      snd (shuffle (randbelow env) cs w))"
  by (simp add: rank_def split: prod.splits)

lemma rank_length: "length (fst (rank env cs w)) \<le> 10"
  by (simp add: rank_shuffled)

lemma rank_set: "set (fst (rank env cs w)) \<subseteq> set cs"
proof -
  have "set (sorted_reverse score_key (fst (shuffle (randbelow env) cs w))) = set cs"
    using sorted_reverse_mset[of score_key "fst (shuffle (randbelow env) cs w)"]
          shuffle_mset[of "randbelow env" cs w]
    by (metis mset_eq_setD)
  then show ?thesis
    unfolding rank_shuffled fst_conv using set_take_subset by fastforce
qed



lemma subseq_pipeline: "subseq (pipeline parsed cs) cs"
proof -
  have 1: "subseq (dedup_url cs) cs" by (simp add: dedup_url_unseen subseq_unseen)
  have 2: "subseq (dedup_base (dedup_url cs)) (dedup_url cs)"
    by (simp add: dedup_base_unseen subseq_unseen)
  have 3: "subseq (episode_filter mx xs) xs" for mx xs
    by (cases mx) (simp_all add: episode_filter_def)
  have 4: "subseq (hidden_gem_filter p xs) xs" for p xs
    by (simp add: hidden_gem_filter_def)
  show ?thesis unfolding pipeline_def
    using 1 2 3 4 by (meson subseq_order.order_trans)
qed




lemma recommend_records_Inr:
  assumes "fst (recommend_records env query st) = Inr sel"
  shows "\<exists>cands st1.
           fetch_candidates env (parse_user_request env query) query st = (Inr cands, st1) \<and>
           sel = fst (rank env (pipeline (parse_user_request env query) cands) (world st1))"
proof -
  obtain r st1 where r: "fetch_candidates env (parse_user_request env query) query st = (r, st1)"
    by (cases "fetch_candidates env (parse_user_request env query) query st")
  show ?thesis
  proof (cases r)
    case (Inl e)
    with r assms show ?thesis by (simp add: recommend_records_def Let_def)
  next
    case (Inr cands)
    with r assms show ?thesis
      by (simp add: recommend_records_def Let_def split: prod.splits)
  qed
qed

lemma recommend_anime_Inr:
  assumes "fst (recommend_anime env query st) = Inr out"
  shows "\<exists>sel. fst (recommend_records env query st) = Inr sel \<and>
               out = map (\<lambda>a. (title a, url a)) sel"
proof -
  obtain r st1 where r: "recommend_records env query st = (r, st1)"
    by (cases "recommend_records env query st")
  show ?thesis
  proof (cases r)
    case (Inl e)
    with r assms show ?thesis by (simp add: recommend_anime_def)
  next
    case (Inr sel)
    with r assms show ?thesis by (auto simp: recommend_anime_def)
  qed
qed




lemma recommend_anime_fst:
  "fst (recommend_anime env query st) =
     (case fst (recommend_records env query st) of
        Inl e \<Rightarrow> Inl e
      | Inr chosen \<Rightarrow> Inr (map (\<lambda>a. (title a, url a)) chosen))"
  by (simp add: recommend_anime_def split: prod.splits sum.splits)

lemma recommend_records_fst:
  assumes "fst (fetch_candidates env (parse_user_request env query) query st) = Inr cands"
  shows "fst (recommend_records env query st) =
           Inr (fst (rank env (pipeline (parse_user_request env query) cands)
                  (world (snd (fetch_candidates env (parse_user_request env query) query st)))))"
proof -
  obtain r st1 where r: "fetch_candidates env (parse_user_request env query) query st = (r, st1)"
    by (cases "fetch_candidates env (parse_user_request env query) query st")
  with assms have "r = Inr cands" by simp
  with r show ?thesis
    by (simp add: recommend_records_def Let_def split: prod.splits)
qed

lemma subseq_set: assumes "subseq xs ys" shows "set xs \<subseteq> set ys"
proof
  fix x assume "x \<in> set xs"
  with assms obtain y where "y \<in> set ys" "x = y" by (rule list_emb_set)
  then show "x \<in> set ys" by simp
qed

lemma pipeline_subset: "set (pipeline parsed cs) \<subseteq> set cs"
  using subseq_pipeline by (rule subseq_set)

subsection \<open>Example runs\<close>

lemma run_romance:
  "fst (recommend_records demo_env ''Romance under 20'' start) =
     Inr [demo_romance ! 3, demo_romance ! 1, demo_romance ! 8, demo_romance ! 6]"
  by code_simp

lemma run_action:
  "fst (recommend_records demo_env ''action hidden gem'' start) =
     Inr [demo_action ! 3, demo_action ! 1]"
  by code_simp

lemma run_long_fetch:
  "fst (fetch_candidates long_env (parse_user_request long_env ''zzz'') ''zzz'' start) =
     Inr long_top"
  by code_simp

lemma run_long_world:
  "world (snd (fetch_candidates long_env (parse_user_request long_env ''zzz'') ''zzz'' start)) = 0"
  by code_simp

lemma run_long_rank:
  "fst (rank long_env (pipeline (parse_user_request long_env ''zzz'') long_top) 0) =
     map ((!) long_top) [0, 1, 5, 3, 2, 7, 6, 10, 8, 9]"
  by code_simp

lemma run_long:
  "fst (recommend_records long_env ''zzz'' start) =
     Inr (map ((!) long_top) [0, 1, 5, 3, 2, 7, 6, 10, 8, 9])"
  using recommend_records_fst[OF run_long_fetch] by (simp only: run_long_world run_long_rank)

subsection \<open>Size and content of the result\<close>

text \<open>
  Claim C1, as stated, fails: a title and a url are copied from the fetched record without
  any check, so a record with an empty title and an empty url is returned as it is.
\<close>

theorem recommend_anime_empty_title:
  "fst (recommend_anime nameless_env ''zzz'' start) = Inr [([], [])]"
  by code_simp

text \<open>
  Claim C1, amended. Whenever \<open>recommend_anime\<close> returns, it returns at most 10 items, and
  every item is the title and the url of a record among the fetched candidates.
\<close>

theorem recommend_anime_bounded:
  assumes "fst (recommend_anime env query st) = Inr out"
  shows "length out \<le> 10 \<and>
         (\<exists>cands st1.
            fetch_candidates env (parse_user_request env query) query st = (Inr cands, st1) \<and>
            set out \<subseteq> (\<lambda>a. (title a, url a)) ` set cands)"
proof -
  from recommend_anime_Inr[OF assms] obtain sel where
    sel: "fst (recommend_records env query st) = Inr sel" and
    out: "out = map (\<lambda>a. (title a, url a)) sel" by blast
  from recommend_records_Inr[OF sel] obtain cands st1 where
    f: "fetch_candidates env (parse_user_request env query) query st = (Inr cands, st1)" and
    r: "sel = fst (rank env (pipeline (parse_user_request env query) cands) (world st1))"
    by blast
  have "length sel \<le> 10" unfolding r by (rule rank_length)
  then have len: "length out \<le> 10" unfolding out by simp
  have "set sel \<subseteq> set (pipeline (parse_user_request env query) cands)"
    unfolding r by (rule rank_set)
  also have "\<dots> \<subseteq> set cands" by (rule pipeline_subset)
  finally have "set sel \<subseteq> set cands" .
  then have sub: "set out \<subseteq> (\<lambda>a. (title a, url a)) ` set cands"
    unfolding out by auto
  show ?thesis
  proof (intro conjI exI)
    show "length out \<le> 10" by (rule len)
    show "fetch_candidates env (parse_user_request env query) query st = (Inr cands, st1)"
      by (rule f)
    show "set out \<subseteq> (\<lambda>a. (title a, url a)) ` set cands" by (rule sub)
  qed
qed

theorem recommend_anime_bounded_witness:
  "fst (recommend_anime long_env ''zzz'' start) =
     Inr (map (\<lambda>a. (title a, url a)) (map ((!) long_top) [0, 1, 5, 3, 2, 7, 6, 10, 8, 9])) \<and>
   length (map (\<lambda>a. (title a, url a)) (map ((!) long_top) [0, 1, 5, 3, 2, 7, 6, 10, 8, 9])) \<le> 10"
proof -
  have h: "fst (recommend_anime long_env ''zzz'' start) =
     Inr (map (\<lambda>a. (title a, url a)) (map ((!) long_top) [0, 1, 5, 3, 2, 7, 6, 10, 8, 9]))"
    by (simp only: recommend_anime_fst run_long sum.case)
  from recommend_anime_bounded[OF h] have
    "length (map (\<lambda>a. (title a, url a)) (map ((!) long_top) [0, 1, 5, 3, 2, 7, 6, 10, 8, 9])) \<le> 10"
    by (rule conjunct1)
  with h show ?thesis by (rule conjI)
qed

subsection \<open>No duplicates\<close>







lemma romance_titles:
  "fst (recommend_anime demo_env ''Romance under 20'' start) =
     Inr [(''Horimiya'', ''mal/42897''), (''Tsuki ga Kirei'', ''mal/34822''),
          (''Orange'', ''mal/32729''), (''Just Because!'', ''mal/35639'')]"
  by (simp add: recommend_anime_fst run_romance demo_romance_def)


subsection \<open>Filters\<close>

lemma episode_filter_set:
  "set (episode_filter (Some n) cs) = {a \<in> set cs. episodes_ok n a}"
  by (simp add: episode_filter_def)

lemma episodes_ok_known: "episodes_ok n a \<Longrightarrow> \<exists>e. episodes a = Some e \<and> e \<le> n"
  by (cases "episodes a") (simp_all add: episodes_ok_def)

lemma hidden_gem_filter_set:
  "set (hidden_gem_filter (Some ''hidden gem'') cs) = {a \<in> set cs. hidden_gem_ok a}"
  by (simp add: hidden_gem_filter_def)

lemma hidden_gem_filter_subset: "set (hidden_gem_filter pref cs) \<subseteq> set cs"
  by (simp add: hidden_gem_filter_def)

lemma hidden_gem_ok_known: "hidden_gem_ok a \<Longrightarrow> \<exists>s. score a = Some s \<and> s < 7"
  by (cases "score a") (simp_all add: hidden_gem_ok_def)

lemma pipeline_episodes:
  assumes "max_episodes parsed = Some n" and "a \<in> set (pipeline parsed cs)"
  shows "\<exists>e. episodes a = Some e \<and> e \<le> n"
proof -
  from assms(2) have "a \<in> set (episode_filter (Some n) (dedup_base (dedup_url cs)))"
    unfolding pipeline_def assms(1) using hidden_gem_filter_subset by blast
  then have "episodes_ok n a" by (simp add: episode_filter_set)
  then show ?thesis by (rule episodes_ok_known)
qed

lemma pipeline_hidden_gem:
  assumes "rating_pref parsed = Some ''hidden gem''" and "a \<in> set (pipeline parsed cs)"
  shows "\<exists>s. score a = Some s \<and> s < 7"
proof -
  from assms(2) have "hidden_gem_ok a"
    unfolding pipeline_def assms(1) by (simp add: hidden_gem_filter_set)
  then show ?thesis by (rule hidden_gem_ok_known)
qed

lemma recommend_anime_selected:
  assumes "fst (recommend_anime env query st) = Inr out"
  shows "\<exists>sel cands. fst (recommend_records env query st) = Inr sel \<and>
           out = map (\<lambda>a. (title a, url a)) sel \<and>
           set sel \<subseteq> set (pipeline (parse_user_request env query) cands)"
proof -
  from recommend_anime_Inr[OF assms] obtain sel where
    sel: "fst (recommend_records env query st) = Inr sel" and
    out: "out = map (\<lambda>a. (title a, url a)) sel" by blast
  from recommend_records_Inr[OF sel] obtain cands st1 where
    f: "fetch_candidates env (parse_user_request env query) query st = (Inr cands, st1)" and
    r: "sel = fst (rank env (pipeline (parse_user_request env query) cands) (world st1))"
    by blast
  have "set sel \<subseteq> set (pipeline (parse_user_request env query) cands)"
    unfolding r by (rule rank_set)
  with sel out show ?thesis by blast
qed

text \<open>
  Claim C4. If the parser infers \<open>max_episodes = n\<close> for the query, then only records with a
  known episode count of at most \<open>n\<close> pass the episode filter, a record with an unknown
  episode count does not pass it, and every item that \<open>recommend_anime\<close> returns comes from
  a selected record whose episode count is known and at most \<open>n\<close>.
\<close>

theorem episode_ceiling_respected:
  assumes "max_episodes (parse_user_request env query) = Some n"
  shows "(\<forall>a\<in>set (episode_filter (max_episodes (parse_user_request env query)) cs).
            \<exists>e. episodes a = Some e \<and> e \<le> n) \<and>
         (\<forall>a\<in>set cs. episodes a = None \<longrightarrow>
            a \<notin> set (episode_filter (max_episodes (parse_user_request env query)) cs)) \<and>
         (\<forall>out. fst (recommend_anime env query st) = Inr out \<longrightarrow>
            (\<exists>sel. fst (recommend_records env query st) = Inr sel \<and>
                   out = map (\<lambda>a. (title a, url a)) sel \<and>
                   (\<forall>a\<in>set sel. \<exists>e. episodes a = Some e \<and> e \<le> n)))"
proof (intro conjI ballI allI impI)
  fix a assume "a \<in> set (episode_filter (max_episodes (parse_user_request env query)) cs)"
  then have "episodes_ok n a" unfolding assms by (simp add: episode_filter_set)
  then show "\<exists>e. episodes a = Some e \<and> e \<le> n" by (rule episodes_ok_known)
next
  fix a assume "a \<in> set cs" "episodes a = None"
  then show "a \<notin> set (episode_filter (max_episodes (parse_user_request env query)) cs)"
    unfolding assms by (simp add: episode_filter_set episodes_ok_def)
next
  fix out assume "fst (recommend_anime env query st) = Inr out"
  from recommend_anime_selected[OF this] obtain sel cands where
    sel: "fst (recommend_records env query st) = Inr sel" and
    out: "out = map (\<lambda>a. (title a, url a)) sel" and
    sub: "set sel \<subseteq> set (pipeline (parse_user_request env query) cands)" by blast
  have "\<forall>a\<in>set sel. \<exists>e. episodes a = Some e \<and> e \<le> n"
  proof
    fix a assume "a \<in> set sel"
    with sub have "a \<in> set (pipeline (parse_user_request env query) cands)" by blast
    with assms show "\<exists>e. episodes a = Some e \<and> e \<le> n" by (rule pipeline_episodes)
  qed
  with sel out show "\<exists>sel. fst (recommend_records env query st) = Inr sel \<and>
                   out = map (\<lambda>a. (title a, url a)) sel \<and>
                   (\<forall>a\<in>set sel. \<exists>e. episodes a = Some e \<and> e \<le> n)" by blast
qed

lemma parse_romance:
  "parse_user_request demo_env ''Romance under 20'' =
     \<lparr>genres = [''romance''], max_episodes = Some 20, rating_pref = None\<rparr>"
  by code_simp

lemma parse_action:
  "parse_user_request demo_env ''action hidden gem'' =
     \<lparr>genres = [''action''], max_episodes = None, rating_pref = Some ''hidden gem''\<rparr>"
  by code_simp

theorem episode_ceiling_respected_witness:
  "max_episodes (parse_user_request demo_env ''Romance under 20'') = Some 20 \<and>
   list_all (\<lambda>a. \<exists>e. episodes a = Some e \<and> e \<le> 20)
     [demo_romance ! 3, demo_romance ! 1, demo_romance ! 8, demo_romance ! 6] \<and>
   demo_romance ! 0 \<notin> set (episode_filter (Some 20) demo_romance) \<and>
   demo_romance ! 5 \<notin> set (episode_filter (Some 20) demo_romance)"
proof -
  have h: "max_episodes (parse_user_request demo_env ''Romance under 20'') = Some 20"
    by (simp add: parse_romance)
  note T = episode_ceiling_respected[OF h, of demo_romance start]
  from T[THEN conjunct2, THEN conjunct2, THEN spec, THEN mp, OF romance_titles]
  obtain sel where
    sel: "fst (recommend_records demo_env ''Romance under 20'' start) = Inr sel" and
    ok: "\<forall>a\<in>set sel. \<exists>e. episodes a = Some e \<and> e \<le> 20" by blast
  from sel have "sel = [demo_romance ! 3, demo_romance ! 1, demo_romance ! 8, demo_romance ! 6]"
    by (simp add: run_romance)
  with ok have a: "list_all (\<lambda>a. \<exists>e. episodes a = Some e \<and> e \<le> 20)
      [demo_romance ! 3, demo_romance ! 1, demo_romance ! 8, demo_romance ! 6]"
    by (simp add: list_all_iff)
  have b: "demo_romance ! 0 \<notin> set (episode_filter (Some 20) demo_romance)" by code_simp
  have "demo_romance ! 5 \<in> set demo_romance" "episodes (demo_romance ! 5) = None"
    by (simp_all add: demo_romance_def)
  with T[THEN conjunct2, THEN conjunct1] h
  have c: "demo_romance ! 5 \<notin> set (episode_filter (Some 20) demo_romance)" by auto
  from h a b c show ?thesis by (intro conjI)
qed

text \<open>
  Claim C5. If the parser infers the hidden-gem preference for the query, then only records
  with a known score below 7 pass the hidden-gem filter, a record with an unknown score
  does not pass it, and every item that \<open>recommend_anime\<close> returns comes from a selected
  record whose score is known and below 7.
\<close>

theorem hidden_gem_respected:
  assumes "rating_pref (parse_user_request env query) = Some ''hidden gem''"
  shows "(\<forall>a\<in>set (hidden_gem_filter (rating_pref (parse_user_request env query)) cs).
            \<exists>s. score a = Some s \<and> s < 7) \<and>
         (\<forall>a\<in>set cs. score a = None \<longrightarrow>
            a \<notin> set (hidden_gem_filter (rating_pref (parse_user_request env query)) cs)) \<and>
         (\<forall>out. fst (recommend_anime env query st) = Inr out \<longrightarrow>
            (\<exists>sel. fst (recommend_records env query st) = Inr sel \<and>
                   out = map (\<lambda>a. (title a, url a)) sel \<and>
                   (\<forall>a\<in>set sel. \<exists>s. score a = Some s \<and> s < 7)))"
proof (intro conjI ballI allI impI)
  fix a assume "a \<in> set (hidden_gem_filter (rating_pref (parse_user_request env query)) cs)"
  then have "hidden_gem_ok a" unfolding assms by (simp add: hidden_gem_filter_set)
  then show "\<exists>s. score a = Some s \<and> s < 7" by (rule hidden_gem_ok_known)
next
  fix a assume "a \<in> set cs" "score a = None"
  then show "a \<notin> set (hidden_gem_filter (rating_pref (parse_user_request env query)) cs)"
    unfolding assms by (simp add: hidden_gem_filter_set hidden_gem_ok_def)
next
  fix out assume "fst (recommend_anime env query st) = Inr out"
  from recommend_anime_selected[OF this] obtain sel cands where
    sel: "fst (recommend_records env query st) = Inr sel" and
    out: "out = map (\<lambda>a. (title a, url a)) sel" and
    sub: "set sel \<subseteq> set (pipeline (parse_user_request env query) cands)" by blast
  have "\<forall>a\<in>set sel. \<exists>s. score a = Some s \<and> s < 7"
  proof
    fix a assume "a \<in> set sel"
    with sub have "a \<in> set (pipeline (parse_user_request env query) cands)" by blast
    with assms show "\<exists>s. score a = Some s \<and> s < 7" by (rule pipeline_hidden_gem)
  qed
  with sel out show "\<exists>sel. fst (recommend_records env query st) = Inr sel \<and>
                   out = map (\<lambda>a. (title a, url a)) sel \<and>
                   (\<forall>a\<in>set sel. \<exists>s. score a = Some s \<and> s < 7)" by blast
qed

lemma action_titles:
  "fst (recommend_anime demo_env ''action hidden gem'' start) =
     Inr [(''Hand Shakers'', ''mal/33003''), (''Gibiate'', ''mal/40746'')]"
  by (simp add: recommend_anime_fst run_action demo_action_def)

theorem hidden_gem_respected_witness:
  "rating_pref (parse_user_request demo_env ''action hidden gem'') = Some ''hidden gem'' \<and>
   list_all (\<lambda>a. \<exists>s. score a = Some s \<and> s < 7) [demo_action ! 3, demo_action ! 1] \<and>
   demo_action ! 2 \<notin> set (hidden_gem_filter (Some ''hidden gem'') demo_action)"
proof -
  have h: "rating_pref (parse_user_request demo_env ''action hidden gem'') = Some ''hidden gem''"
    by (simp add: parse_action)
  note T = hidden_gem_respected[OF h, of demo_action start]
  from T[THEN conjunct2, THEN conjunct2, THEN spec, THEN mp, OF action_titles]
  obtain sel where
    sel: "fst (recommend_records demo_env ''action hidden gem'' start) = Inr sel" and
    ok: "\<forall>a\<in>set sel. \<exists>s. score a = Some s \<and> s < 7" by blast
  from sel have "sel = [demo_action ! 3, demo_action ! 1]" by (simp add: run_action)
  with ok have a: "list_all (\<lambda>a. \<exists>s. score a = Some s \<and> s < 7)
      [demo_action ! 3, demo_action ! 1]"
    by (simp add: list_all_iff)
  have "demo_action ! 2 \<in> set demo_action" "score (demo_action ! 2) = None"
    by (simp_all add: demo_action_def)
  with T[THEN conjunct2, THEN conjunct1] h
  have c: "demo_action ! 2 \<notin> set (hidden_gem_filter (Some ''hidden gem'') demo_action)" by auto
  from h a c show ?thesis by (intro conjI)
qed

subsection \<open>Ranking\<close>








subsection \<open>The episode ceiling of the parser\<close>

lemma index_of_less: "x \<in> set xs \<Longrightarrow> index_of xs x < length xs"
  by (induction xs) auto













subsection \<open>Fallback order\<close>









subsection \<open>Cache store\<close>

lemma dirname_CACHE_PATH: "dirname CACHE_PATH = CACHE_DIR"
  by (simp add: dirname_def CACHE_PATH_def CACHE_DIR_def)

lemma load_cache_absent:
  "\<not> path_exists fs path \<Longrightarrow> load_cache codec fs path = Inr Map.empty"
  by (simp add: load_cache_def)

lemma load_cache_unparsable:
  assumes "path \<notin> dirs fs" and "files fs path = Some text" and "json_load codec text = None"
  shows "load_cache codec fs path = Inl JSONDecodeError"
  using assms by (simp add: load_cache_def path_exists_def read_file_def)

text \<open>
  Claim C8, as stated, fails for a file that does not parse: \<open>json.load\<close> raises and nothing
  catches it, so no mapping is returned.
\<close>

theorem load_cache_unparsable_raises:
  "files broken_fs CACHE_PATH = Some ''{'' \<and> json_load demo_codec ''{'' = None \<and>
   load_cache demo_codec broken_fs CACHE_PATH = Inl JSONDecodeError"
  by (simp add: broken_fs_def demo_codec_def demo_doc_def load_cache_def path_exists_def
        read_file_def CACHE_PATH_def CACHE_DIR_def)

text \<open>
  Claim C8, amended. The cache load operation returns the empty mapping whenever nothing
  exists at the path; when the cache file exists and its contents do not parse, it raises
  the decoder's error and returns no mapping.
\<close>

theorem load_cache_absent_or_unparsable:
  "(\<not> path_exists fs path \<longrightarrow> load_cache codec fs path = Inr Map.empty) \<and>
   (path \<notin> dirs fs \<and> files fs path = Some content \<and> json_load codec content = None \<longrightarrow>
      load_cache codec fs path = Inl JSONDecodeError)"
  using load_cache_absent[of fs path codec] load_cache_unparsable[of path fs content codec]
  by blast

theorem load_cache_absent_or_unparsable_witness:
  "load_cache demo_codec empty_fs CACHE_PATH = Inr Map.empty \<and>
   load_cache demo_codec broken_fs CACHE_PATH = Inl JSONDecodeError"
proof -
  note T = load_cache_absent_or_unparsable[of empty_fs CACHE_PATH demo_codec "''{''"]
  note U = load_cache_absent_or_unparsable[of broken_fs CACHE_PATH demo_codec "''{''"]
  have "\<not> path_exists empty_fs CACHE_PATH" by (simp add: path_exists_def empty_fs_def)
  with T[THEN conjunct1] have a: "load_cache demo_codec empty_fs CACHE_PATH = Inr Map.empty"
    by (rule mp)
  have "CACHE_PATH \<notin> dirs broken_fs \<and> files broken_fs CACHE_PATH = Some ''{'' \<and>
        json_load demo_codec ''{'' = None"
    by (simp add: broken_fs_def demo_codec_def demo_doc_def CACHE_PATH_def CACHE_DIR_def)
  with U[THEN conjunct2] have b:
    "load_cache demo_codec broken_fs CACHE_PATH = Inl JSONDecodeError" by (rule mp)
  from a b show ?thesis by (rule conjI)
qed


lemma save_cache_default_succeeds:
  assumes "files fs CACHE_DIR = None" and "CACHE_PATH \<notin> dirs fs"
  shows "\<exists>fs'. save_cache codec fs CACHE_PATH cache = Inr fs'"
proof -
  have ne: "CACHE_DIR \<noteq> []" "CACHE_PATH \<noteq> CACHE_DIR"
    by (simp_all add: CACHE_DIR_def CACHE_PATH_def)
  show ?thesis
  proof (cases "CACHE_DIR \<in> dirs fs")
    case True
    with assms ne show ?thesis
      by (simp add: save_cache_def makedirs_exist_ok_def write_file_def dirname_CACHE_PATH)
  next
    case False
    with assms ne show ?thesis
      by (simp add: save_cache_def makedirs_exist_ok_def write_file_def dirname_CACHE_PATH)
  qed
qed



end
